theory Spec2Isabelle
  imports Complex_Main "HOL-Library.AList" "HOL-Library.Multiset"
begin

section \<open>Python values as they come out of the JSON parser\<close>

text \<open>
  Everything the scripts handle is what \<^verbatim>\<open>response.json()\<close> returns, the text of a
  response that is not JSON, or \<^verbatim>\<open>None\<close>. One datatype holds all three: \<open>JNull\<close> is
  \<^verbatim>\<open>None\<close>, \<open>JStr\<close> a \<^verbatim>\<open>str\<close>, \<open>JArr\<close> a \<^verbatim>\<open>list\<close> and \<open>JObj\<close> a \<^verbatim>\<open>dict\<close> with its keys in
  insertion order. Numbers are compared by value only (\<^verbatim>\<open>1 == 1.0\<close>), so one
  constructor carries \<^verbatim>\<open>int\<close> and finite \<^verbatim>\<open>float\<close> alike.
\<close>

datatype json =
    JNull
  | JBool bool
  | JNum rat
  | JStr string
  | JArr "json list"
  | JObj "(string \<times> json) list"

datatype pyerror = AttributeError | TypeError | ValueError

text \<open>Truth value testing, as \<^verbatim>\<open>if x\<close> and \<^verbatim>\<open>x and y\<close> do it.\<close>

fun truthy :: "json \<Rightarrow> bool" where
  "truthy JNull = False"
| "truthy (JBool b) = b"
| "truthy (JNum n) = (n \<noteq> 0)"
| "truthy (JStr s) = (s \<noteq> [])"
| "truthy (JArr xs) = (xs \<noteq> [])"
| "truthy (JObj d) = (d \<noteq> [])"

text \<open>
  The operator \<^verbatim>\<open>==\<close>: \<^verbatim>\<open>bool\<close> is a number (\<^verbatim>\<open>True == 1\<close>), lists are compared
  elementwise, dicts key by key whatever the order of the keys.
\<close>

fun py_eq :: "json \<Rightarrow> json \<Rightarrow> bool" where
  "py_eq JNull JNull = True"
| "py_eq (JBool a) (JBool b) = (a = b)"
| "py_eq (JBool a) (JNum n) = (n = of_bool a)"
| "py_eq (JNum n) (JBool a) = (n = of_bool a)"
| "py_eq (JNum m) (JNum n) = (m = n)"
| "py_eq (JStr s) (JStr t) = (s = t)"
| "py_eq (JArr xs) (JArr ys) = list_all2 py_eq xs ys"
| "py_eq (JObj a) (JObj b) =
     (length a = length b \<and>
      list_all (\<lambda>(k, v). case map_of b k of None \<Rightarrow> False | Some w \<Rightarrow> py_eq v w) a)"
| "py_eq _ _ = False"

fun is_list :: "json \<Rightarrow> bool" where
  "is_list (JArr xs) = True"
| "is_list _ = False"

fun is_dict :: "json \<Rightarrow> bool" where
  "is_dict (JObj d) = True"
| "is_dict _ = False"

text \<open>\<^verbatim>\<open>d.get(k, default)\<close> and \<^verbatim>\<open>k in d\<close> on a dict.\<close>

definition dict_get :: "(string \<times> json) list \<Rightarrow> string \<Rightarrow> json \<Rightarrow> json" where
  "dict_get d k dflt = (case map_of d k of None \<Rightarrow> dflt | Some v \<Rightarrow> v)"

definition dict_has :: "(string \<times> json) list \<Rightarrow> string \<Rightarrow> bool" where
  "dict_has d k = (map_of d k \<noteq> None)"

text \<open>\<^verbatim>\<open>len(x)\<close> and the elements a \<^verbatim>\<open>for\<close> loop over \<open>x\<close> visits.\<close>

fun py_len :: "json \<Rightarrow> pyerror + nat" where
  "py_len (JArr xs) = Inr (length xs)"
| "py_len (JStr s) = Inr (length s)"
| "py_len (JObj d) = Inr (length d)"
| "py_len _ = Inl TypeError"

fun py_iter :: "json \<Rightarrow> json list" where
  "py_iter (JArr xs) = xs"
| "py_iter (JStr s) = map (\<lambda>c. JStr [c]) s"
| "py_iter (JObj d) = map (\<lambda>kv. JStr (fst kv)) d"
| "py_iter _ = []"

section \<open>The HTTP layer: \<^verbatim>\<open>make_api_call\<close>\<close>

text \<open>
  The remote service is a parameter: a function from the request sent to what the
  \<^verbatim>\<open>requests\<close> library does with it. It raises a \<^verbatim>\<open>RequestException\<close>, or it returns a
  response whose body parses as JSON, or one whose body does not. The base URL and
  the headers are the same in every request and are left out of it. The scripts pass
  the method as the literal \<^verbatim>\<open>GET\<close> or \<^verbatim>\<open>POST\<close>; \<open>UNSUPPORTED\<close> is any other string, for
  which nothing is sent.
\<close>

datatype http_method = GET | POST | UNSUPPORTED

datatype request =
    Get string "(string \<times> json) list option"
  | Post string "json option" "(string \<times> json) list option"

datatype http_reply = RequestException | JsonBody json | TextBody string

type_synonym http = "request \<Rightarrow> http_reply"

fun reply_value :: "http_reply \<Rightarrow> json" where
  "reply_value RequestException = JNull"
| "reply_value (JsonBody j) = j"
| "reply_value (TextBody t) = JStr t"

text \<open>The value returned, and the requests that went out.\<close>

fun make_api_call ::
  "http \<Rightarrow> http_method \<Rightarrow> string \<Rightarrow> json option \<Rightarrow> (string \<times> json) list option
     \<Rightarrow> json \<times> request list" where
  "make_api_call srv GET endpoint data params =
     (reply_value (srv (Get endpoint params)), [Get endpoint params])"
| "make_api_call srv POST endpoint data params =
     (reply_value (srv (Post endpoint data params)), [Post endpoint data params])"
| "make_api_call srv UNSUPPORTED endpoint data params = (JNull, [])"

section \<open>Record transformation and update dispatch: \<^verbatim>\<open>update_single_model\<close>\<close>

text \<open>
  The payload of lines 138 to 153 of the batch scripts (141 to 156 of
  \<^verbatim>\<open>update-models.py\<close>, the same statements): a copy of the record, one key assigned,
  three keys filled in when missing. Assigning a key of a dict keeps its position
  when the key exists and appends it otherwise, which is \<open>AList.update\<close>.
  The f-string of the description formats \<^verbatim>\<open>model_name\<close>, which may be any value;
  Python's formatting of a value is the parameter \<open>py_str\<close>.
\<close>

definition default_meta :: "(json \<Rightarrow> string) \<Rightarrow> string \<Rightarrow> json \<Rightarrow> json" where
  "default_meta py_str target_model model_name =
     JObj [(''profile_image_url'', JStr ''/static/favicon.png''),
           (''description'', JStr (py_str model_name @ '' using '' @ target_model)),
           (''capabilities'', JObj [])]"

definition build_payload ::
  "(json \<Rightarrow> string) \<Rightarrow> string \<Rightarrow> (string \<times> json) list \<Rightarrow> (string \<times> json) list" where
  "build_payload py_str target_model model =
     (let model_name = dict_get model ''name'' (JStr ''unknown'');
          p0 = AList.update ''base_model_id'' (JStr target_model) model;
          p1 = (if \<not> dict_has p0 ''name'' then AList.update ''name'' model_name p0 else p0);
          p2 = (if \<not> dict_has p1 ''meta''
                then AList.update ''meta'' (default_meta py_str target_model model_name) p1
                else p1);
          p3 = (if \<not> dict_has p2 ''params'' then AList.update ''params'' (JObj []) p2 else p2)
      in p3)"

text \<open>
  The value of \<^verbatim>\<open>update_response and isinstance(update_response, dict) and
  update_response.get('id') == model_id\<close>: the first operand that is false, or the last.
\<close>

definition update_confirmed :: "json \<Rightarrow> json \<Rightarrow> json" where
  "update_confirmed update_response model_id =
     (if \<not> truthy update_response then update_response
      else case update_response of
             JObj d \<Rightarrow> JBool (py_eq (dict_get d ''id'' JNull) model_id)
           | _ \<Rightarrow> JBool False)"

text \<open>
  What one call of \<^verbatim>\<open>update_single_model\<close> leaves behind: the value returned or the
  exception raised, the requests sent, and by how much the progress bar moved. The
  bar is the one \<^verbatim>\<open>update_models\<close> hands over; its total is the number of models, which
  is not zero, so \<^verbatim>\<open>if progress_bar\<close> holds.
\<close>

record attempt =
  returned :: "pyerror + json"
  sent :: "request list"
  progress :: nat

text \<open>
  \<^verbatim>\<open>update_single_model\<close> of the two batch scripts. The server-side script takes the
  target model as an argument, the remote one reads it from the configuration; the
  bodies are the same statement for statement.
\<close>

definition update_single_model ::
  "(json \<Rightarrow> string) \<Rightarrow> http \<Rightarrow> string \<Rightarrow> json \<Rightarrow> attempt" where
  "update_single_model py_str srv target_model model =
     (case model of
        JObj d \<Rightarrow>
          (let model_id = dict_get d ''id'' (JStr ''unknown'');
               current_base_model = dict_get d ''base_model_id'' (JStr ''unknown'')
           in if py_eq model_id (JStr ''unknown'') \<or> model_id = JNull
              then \<lparr>returned = Inr (JBool False), sent = [], progress = 1\<rparr>
              else if py_eq current_base_model (JStr target_model)
              then \<lparr>returned = Inr (JBool True), sent = [], progress = 1\<rparr>
              else
                (let update_payload = JObj (build_payload py_str target_model d);
                     params = [(''id'', model_id)];
                     (r1, s1) = make_api_call srv POST ''/models/model/update''
                                  (Some update_payload) (Some params)
                 in if \<not> truthy (update_confirmed r1 model_id)
                    then
                      (let (r2, s2) = make_api_call srv POST ''/models/update''
                                        (Some update_payload) (Some params)
                       in \<lparr>returned = Inr (update_confirmed r2 model_id),
                           sent = s1 @ s2, progress = 1\<rparr>)
                    else \<lparr>returned = Inr (update_confirmed r1 model_id),
                          sent = s1, progress = 1\<rparr>))
      | _ \<Rightarrow> \<lparr>returned = Inl AttributeError, sent = [], progress = 0\<rparr>)"

section \<open>The batch scripts: \<^verbatim>\<open>update_models\<close>\<close>

text \<open>
  Of the configuration, the run reads the target model, the mode and the worker
  count. The count is the default or the integer given with \<^verbatim>\<open>--workers\<close>, which may
  be negative. The debug flag only adds log lines.
\<close>

record config =
  target_model :: string
  batch_mode :: bool
  max_workers :: int

subsection \<open>Fetching the models (lines 181 to 196)\<close>

text \<open>The test of lines 187 to 189, applied to the answer of each alternative path.\<close>

definition listing_ok :: "json \<Rightarrow> bool" where
  "listing_ok models_response =
     (truthy models_response \<and>
      (is_list models_response \<or>
       (case models_response of
          JObj d \<Rightarrow> dict_has d ''models'' \<or> dict_has d ''data''
        | _ \<Rightarrow> False)))"

text \<open>
  The loop over the alternative paths. \<^verbatim>\<open>models_response\<close> is assigned in every
  round, so when no round breaks out it holds the answer of the last path.
\<close>

fun try_alternatives :: "http \<Rightarrow> string list \<Rightarrow> json \<Rightarrow> json \<times> request list" where
  "try_alternatives srv [] models_response = (models_response, [])"
| "try_alternatives srv (endpoint # rest) models_response =
     (let (r, s) = make_api_call srv GET endpoint None None
      in if listing_ok r then (r, s)
         else (let (r', s') = try_alternatives srv rest r in (r', s @ s')))"

definition fetch_models :: "http \<Rightarrow> json \<times> request list" where
  "fetch_models srv =
     (let (r, s) = make_api_call srv GET ''/models'' None None
      in if \<not> (truthy r \<and> is_list r)
         then (let (r', s') = try_alternatives srv [''/models/'', ''/models/list'', ''/v1/models''] r
               in (r', s @ s'))
         else (r, s))"

definition extract_models :: "json \<Rightarrow> json" where
  "extract_models models_response =
     (case models_response of
        JObj d \<Rightarrow> dict_get d ''models'' (dict_get d ''data'' (JArr []))
      | JArr xs \<Rightarrow> JArr xs
      | _ \<Rightarrow> JArr [])"

subsection \<open>Counting the results (lines 225 to 259)\<close>

record counters =
  successful_updates :: nat
  failed_updates :: nat
  skipped_updates :: nat

record progress_bar =
  bar_total :: nat
  bar_n :: nat

datatype 's outcome =
    SysExit nat string
  | Uncaught pyerror
  | Completed 's

text \<open>
  \<open>SysExit c msg\<close> is \<^verbatim>\<open>sys.exit(c)\<close> right after the ERROR line \<open>msg\<close>; \<open>Uncaught\<close>
  is an exception that nothing catches, which ends the interpreter with status 1;
  \<open>Completed\<close> is a run that printed its summary.
\<close>

fun exit_status :: "'s outcome \<Rightarrow> nat" where
  "exit_status (SysExit c msg) = c"
| "exit_status (Uncaught e) = 1"
| "exit_status (Completed s) = 0"

text \<open>
  One round of the loop over the results: the record's name is read before the
  \<^verbatim>\<open>try\<close>, the result of the worker inside it.
\<close>

fun tally :: "string \<Rightarrow> counters \<Rightarrow> json \<times> (pyerror + json) \<Rightarrow> pyerror + counters" where
  "tally target (c::counters) (JObj d, Inl e) = Inr (c\<lparr>failed_updates := failed_updates c + 1\<rparr>)"
| "tally target c (JObj d, Inr success) =
     Inr (if truthy success then c\<lparr>successful_updates := successful_updates c + 1\<rparr>
          else if py_eq (dict_get d ''base_model_id'' (JStr ''unknown'')) (JStr target)
               then c\<lparr>skipped_updates := skipped_updates c + 1\<rparr>
               else c\<lparr>failed_updates := failed_updates c + 1\<rparr>)"
| "tally target c (model, res) = Inl AttributeError"

fun tally_all ::
  "string \<Rightarrow> (json \<times> (pyerror + json)) list \<Rightarrow> counters \<Rightarrow> pyerror + counters" where
  "tally_all target [] c = Inr c"
| "tally_all target (job # rest) c =
     (case tally target c job of
        Inl e \<Rightarrow> Inl e
      | Inr c' \<Rightarrow> tally_all target rest c')"

text \<open>
  \<^verbatim>\<open>as_completed\<close> hands the futures over in the order in which they finish; \<open>finish\<close>
  gives each submitted task its finishing time, and any order can be had that way.
\<close>

definition as_completed :: "(nat \<Rightarrow> nat) \<Rightarrow> 'a list \<Rightarrow> 'a list" where
  "as_completed finish jobs = map (\<lambda>i. jobs ! i) (sort_key finish [0..<length jobs])"

text \<open>
  \<^verbatim>\<open>update_models\<close> of \<^verbatim>\<open>update-remotely/batch-model-updater.py\<close>. The task of record
  \<open>i\<close> talks to the service through \<open>workers i\<close>, so two equal records may be answered
  differently. In batch mode the pool is made first (line 217), and
  \<^verbatim>\<open>ThreadPoolExecutor\<close> raises \<^verbatim>\<open>ValueError\<close> for a worker count that is not positive;
  nothing is submitted then.
\<close>

definition update_models ::
  "config \<Rightarrow> (json \<Rightarrow> string) \<Rightarrow> http \<Rightarrow> (nat \<Rightarrow> http) \<Rightarrow> (nat \<Rightarrow> nat)
     \<Rightarrow> (counters \<times> progress_bar) outcome" where
  "update_models cfg py_str srv workers finish =
     (let (models_response, s) = fetch_models srv;
          models = extract_models models_response
      in case py_len models of
           Inl e \<Rightarrow> Uncaught e
         | Inr model_count \<Rightarrow>
             if model_count = 0 then SysExit 1 ''No models found in the API response''
             else if batch_mode cfg \<and> max_workers cfg \<le> 0 then Uncaught ValueError
             else
               (let ms = py_iter models;
                    runs = map (\<lambda>(i, model).
                              update_single_model py_str (workers i) (target_model cfg) model)
                            (enumerate 0 ms);
                    jobs = zip ms (map returned runs);
                    results = (if batch_mode cfg then as_completed finish jobs else jobs)
                in case tally_all (target_model cfg) results
                          \<lparr>successful_updates = 0, failed_updates = 0, skipped_updates = 0\<rparr> of
                     Inl e \<Rightarrow> Uncaught e
                   | Inr c \<Rightarrow>
                       Completed (c, \<lparr>bar_total = model_count,
                                      bar_n = sum_list (map progress runs)\<rparr>)))"

text \<open>
  \<^verbatim>\<open>update_models\<close> of \<^verbatim>\<open>serverside-script/batch-model-updater.py\<close>: the same
  statements with the target model written into the function and the pool always on
  (line 209), made with the worker count of that script's configuration.
\<close>

definition update_models_serverside ::
  "int \<Rightarrow> (json \<Rightarrow> string) \<Rightarrow> http \<Rightarrow> (nat \<Rightarrow> http) \<Rightarrow> (nat \<Rightarrow> nat)
     \<Rightarrow> (counters \<times> progress_bar) outcome" where
  "update_models_serverside workers_flag py_str srv workers finish =
     update_models
       \<lparr>target_model = ''openrouter.google/gemini-2.5-pro-exp-03-25:free'', batch_mode = True,
        max_workers = workers_flag\<rparr>
       py_str srv workers finish"

section \<open>The sequential script \<^verbatim>\<open>update-models.py\<close>\<close>

text \<open>The loop over the listing paths (lines 93 to 104); \<^verbatim>\<open>None\<close> when no path breaks out.\<close>

fun try_endpoints :: "http \<Rightarrow> string list \<Rightarrow> json \<times> request list" where
  "try_endpoints srv [] = (JNull, [])"
| "try_endpoints srv (endpoint # rest) =
     (let (response, s) = make_api_call srv GET endpoint None None
      in if truthy response \<and> is_list response then (response, s)
         else if truthy response \<and>
                 (case response of
                    JObj d \<Rightarrow> dict_has d ''models'' \<or> dict_has d ''data''
                  | _ \<Rightarrow> False)
         then (case response of
                 JObj d \<Rightarrow> (dict_get d ''models'' (dict_get d ''data'' (JArr [])), s)
               | _ \<Rightarrow> (JNull, s))
         else (let (r', s') = try_endpoints srv rest in (r', s @ s')))"

text \<open>The loop over the update paths (lines 171 to 181): did one of them confirm?\<close>

fun try_update_endpoints ::
  "http \<Rightarrow> string list \<Rightarrow> json \<Rightarrow> (string \<times> json) list \<Rightarrow> json \<Rightarrow> bool \<times> request list" where
  "try_update_endpoints srv [] update_payload params model_id = (False, [])"
| "try_update_endpoints srv (update_endpoint # rest) update_payload params model_id =
     (let (update_response, s) =
            make_api_call srv POST update_endpoint (Some update_payload) (Some params)
      in if truthy (update_confirmed update_response model_id) then (True, s)
         else (let (ok, s') = try_update_endpoints srv rest update_payload params model_id
               in (ok, s @ s')))"

text \<open>
  The body of the loop over the models (lines 127 to 187): the exception raised, or
  whether \<^verbatim>\<open>successful_updates\<close> went up, with the requests sent.
\<close>

definition update_one_plain ::
  "(json \<Rightarrow> string) \<Rightarrow> http \<Rightarrow> string \<Rightarrow> json \<Rightarrow> pyerror + (bool \<times> request list)" where
  "update_one_plain py_str srv target model =
     (case model of
        JObj d \<Rightarrow>
          (let model_id = dict_get d ''id'' (JStr ''unknown'')
           in if py_eq model_id (JStr ''unknown'') \<or> model_id = JNull then Inr (False, [])
              else Inr (try_update_endpoints srv [''/models/model/update'', ''/models/update'']
                          (JObj (build_payload py_str target d)) [(''id'', model_id)] model_id))
      | _ \<Rightarrow> Inl AttributeError)"

fun update_loop_plain ::
  "(json \<Rightarrow> string) \<Rightarrow> (nat \<Rightarrow> http) \<Rightarrow> string \<Rightarrow> (nat \<times> json) list \<Rightarrow> nat \<Rightarrow> pyerror + nat" where
  "update_loop_plain py_str workers target [] successful = Inr successful"
| "update_loop_plain py_str workers target ((i, model) # rest) successful =
     (case update_one_plain py_str (workers i) target model of
        Inl e \<Rightarrow> Inl e
      | Inr (ok, s) \<Rightarrow>
          update_loop_plain py_str workers target rest (if ok then successful + 1 else successful))"

record plain_summary =
  plain_successful_updates :: nat
  plain_model_count :: nat

text \<open>Line 113: the models are the value fetched when it is a list, and no models otherwise.\<close>

definition plain_models :: "json \<Rightarrow> json list" where
  "plain_models models_response = (case models_response of JArr xs \<Rightarrow> xs | _ \<Rightarrow> [])"

definition update_models_plain ::
  "string \<Rightarrow> (json \<Rightarrow> string) \<Rightarrow> http \<Rightarrow> (nat \<Rightarrow> http) \<Rightarrow> plain_summary outcome" where
  "update_models_plain target py_str srv workers =
     (let (models_response, s) =
            try_endpoints srv [''/models'', ''/models/'', ''/models/list'', ''/v1/models'']
      in if \<not> truthy models_response
         then SysExit 1 ''Failed to fetch models from any endpoint''
         else
           (let models = plain_models models_response;
                model_count = length models
            in if model_count = 0 then SysExit 1 ''No models found in the API response''
               else (case update_loop_plain py_str workers target (enumerate 0 models) 0 of
                       Inl e \<Rightarrow> Uncaught e
                     | Inr k \<Rightarrow>
                         Completed \<lparr>plain_successful_updates = k,
                                    plain_model_count = model_count\<rparr>)))"

section \<open>Notions the properties are stated with\<close>

text \<open>
  A record's id is missing or the marker: the condition under which the scripts log
  \<^verbatim>\<open>Skipping model with missing ID\<close>, namely no \<^verbatim>\<open>id\<close> key, an \<^verbatim>\<open>id\<close> that is
  \<^verbatim>\<open>null\<close>, or the string \<^verbatim>\<open>unknown\<close>. A record's base model is read as the scripts
  read it, the marker \<^verbatim>\<open>unknown\<close> standing for an absent key.
\<close>

definition id_missing_or_unknown :: "(string \<times> json) list \<Rightarrow> bool" where
  "id_missing_or_unknown d =
     (map_of d ''id'' = None \<or> map_of d ''id'' = Some JNull \<or>
      map_of d ''id'' = Some (JStr ''unknown''))"

definition base_model_is :: "(string \<times> json) list \<Rightarrow> string \<Rightarrow> bool" where
  "base_model_is d target = (dict_get d ''base_model_id'' (JStr ''unknown'') = JStr target)"

text \<open>
  A reply confirms an update, in the words of the specification: it parses as a JSON
  object and has an \<^verbatim>\<open>id\<close> field equal to the id of the record.
\<close>

definition confirms :: "http_reply \<Rightarrow> json \<Rightarrow> bool" where
  "confirms rep model_id =
     (case rep of
        JsonBody (JObj d) \<Rightarrow> (case map_of d ''id'' of Some v \<Rightarrow> py_eq v model_id | None \<Rightarrow> False)
      | _ \<Rightarrow> False)"

text \<open>The value fetched is a list, not empty, of JSON objects.\<close>

definition usable_listing :: "json \<Rightarrow> bool" where
  "usable_listing models = (case models of JArr ms \<Rightarrow> ms \<noteq> [] \<and> list_all is_dict ms | _ \<Rightarrow> False)"

text \<open>
  A successful listing reply in the words of the specification: the body parses as
  JSON and is a list, or a mapping with a \<^verbatim>\<open>models\<close> or \<^verbatim>\<open>data\<close> key whose value is a list.
\<close>

definition listing_success_spec :: "http_reply \<Rightarrow> bool" where
  "listing_success_spec rep =
     (case rep of
        JsonBody (JArr xs) \<Rightarrow> True
      | JsonBody (JObj d) \<Rightarrow>
          is_list (dict_get d ''models'' JNull) \<or> is_list (dict_get d ''data'' JNull)
      | _ \<Rightarrow> False)"

text \<open>
  The replies the scripts do stop at: the body parses as JSON and is a list that is
  not empty, or a mapping with a \<^verbatim>\<open>models\<close> or \<^verbatim>\<open>data\<close> key. The two kinds apart:
  \<open>nonempty_list_body\<close> and \<open>mapping_with_key\<close>.
\<close>

definition listing_recognised :: "http_reply \<Rightarrow> bool" where
  "listing_recognised rep =
     (case rep of
        JsonBody (JArr xs) \<Rightarrow> xs \<noteq> []
      | JsonBody (JObj d) \<Rightarrow> dict_has d ''models'' \<or> dict_has d ''data''
      | _ \<Rightarrow> False)"

definition nonempty_list_body :: "http_reply \<Rightarrow> bool" where
  "nonempty_list_body rep = (case rep of JsonBody (JArr xs) \<Rightarrow> xs \<noteq> [] | _ \<Rightarrow> False)"

definition mapping_with_key :: "http_reply \<Rightarrow> bool" where
  "mapping_with_key rep =
     (case rep of JsonBody (JObj d) \<Rightarrow> dict_has d ''models'' \<or> dict_has d ''data'' | _ \<Rightarrow> False)"

text \<open>
  A search that tries the paths in order and stops at the first reply that counts as
  a success: that reply, if there is one, and the requests made.
\<close>

fun first_success ::
  "(http_reply \<Rightarrow> bool) \<Rightarrow> http \<Rightarrow> string list \<Rightarrow> http_reply option \<times> request list" where
  "first_success success srv [] = (None, [])"
| "first_success success srv (path # rest) =
     (if success (srv (Get path None)) then (Some (srv (Get path None)), [Get path None])
      else (let (found, s) = first_success success srv rest in (found, Get path None # s)))"

text \<open>The listing paths of \<^verbatim>\<open>update-models.py\<close>, in its order.\<close>

definition listing_paths :: "string list" where
  "listing_paths = [''/models'', ''/models/'', ''/models/list'', ''/v1/models'']"

section \<open>Example records and services\<close>

text \<open>
  The target model of the examples is \<^verbatim>\<open>new-model\<close>. Record \<open>rec_a\<close> is at the target,
  \<open>rec_b\<close> and \<open>rec_c\<close> are not, \<open>rec_noid\<close> has no id and \<open>rec_unknown\<close> has the marker
  for one. \<open>payload_c\<close> is the body sent for \<open>rec_c\<close>.
\<close>

definition ex_str :: "json \<Rightarrow> string" where
  "ex_str j = (case j of JStr s \<Rightarrow> s | _ \<Rightarrow> ''?'')"

definition ex_cfg :: config where
  "ex_cfg = \<lparr>target_model = ''new-model'', batch_mode = True, max_workers = 5\<rparr>"

definition rec_a :: "(string \<times> json) list" where
  "rec_a = [(''id'', JStr ''a''), (''name'', JStr ''A''), (''base_model_id'', JStr ''new-model'')]"

definition rec_b :: "(string \<times> json) list" where
  "rec_b = [(''id'', JStr ''b''), (''name'', JStr ''B''), (''base_model_id'', JStr ''old-model''),
            (''owner'', JStr ''u1'')]"

definition rec_c :: "(string \<times> json) list" where
  "rec_c = [(''id'', JStr ''c''), (''base_model_id'', JStr ''old-model'')]"

definition rec_noid :: "(string \<times> json) list" where
  "rec_noid = [(''name'', JStr ''N''), (''base_model_id'', JStr ''old-model'')]"

definition rec_unknown :: "(string \<times> json) list" where
  "rec_unknown = [(''id'', JStr ''unknown''), (''base_model_id'', JStr ''new-model'')]"

definition payload_c :: "(string \<times> json) list" where
  "payload_c =
     [(''id'', JStr ''c''), (''base_model_id'', JStr ''new-model''), (''name'', JStr ''unknown''),
      (''meta'', JObj [(''profile_image_url'', JStr ''/static/favicon.png''),
                      (''description'', JStr ''unknown using new-model''),
                      (''capabilities'', JObj [])]),
      (''params'', JObj [])]"

text \<open>
  A service that answers the primary listing path with the body given and fails on
  every other request; one that gives the same reply to every request; one that
  fails on the primary listing path and answers every other request with the body
  given; and one that confirms the update of record \<^verbatim>\<open>b\<close> on the primary update path and answers every
  other update with a text.
\<close>

definition srv_list :: "json \<Rightarrow> http" where
  "srv_list body rq = (if rq = Get ''/models'' None then JsonBody body else RequestException)"

definition srv_const :: "http_reply \<Rightarrow> http" where
  "srv_const rep rq = rep"

definition srv_fallback :: "json \<Rightarrow> http" where
  "srv_fallback body rq = (if rq = Get ''/models'' None then RequestException else JsonBody body)"

definition srv_confirm_b :: http where
  "srv_confirm_b rq =
     (case rq of
        Post endpoint data params \<Rightarrow>
          if endpoint = ''/models/model/update'' \<and> params = Some [(''id'', JStr ''b'')]
          then JsonBody (JObj [(''id'', JStr ''b'')])
          else TextBody ''Not Found''
      | Get endpoint params \<Rightarrow> RequestException)"

definition ex_workers :: "nat \<Rightarrow> http" where
  "ex_workers i = srv_confirm_b"

text \<open>The tasks of the examples finish in the reverse of the order of submission.\<close>

definition ex_finish :: "nat \<Rightarrow> nat" where
  "ex_finish i = 10 - i"

section \<open>Facts about the building blocks\<close>

lemma py_eq_JStr [simp]: "py_eq x (JStr s) \<longleftrightarrow> x = JStr s"
  by (cases x) auto

lemma map_of_build_payload:
  "map_of (build_payload py_str target d) k =
     (if k = ''base_model_id'' then Some (JStr target)
      else case map_of d k of
             Some v \<Rightarrow> Some v
           | None \<Rightarrow>
               if k = ''name'' then Some (JStr ''unknown'')
               else if k = ''meta''
                    then Some (default_meta py_str target (dict_get d ''name'' (JStr ''unknown'')))
               else if k = ''params'' then Some (JObj [])
               else None)"
  by (auto simp: build_payload_def Let_def dict_has_def dict_get_def update_conv'
           split: option.splits)

lemma sent_update_single_model:
  assumes "rq \<in> set (sent (update_single_model py_str srv target (JObj d)))"
  shows "\<exists>endpoint. rq = Post endpoint (Some (JObj (build_payload py_str target d)))
                          (Some [(''id'', dict_get d ''id'' (JStr ''unknown''))])"
  using assms
  by (auto simp: update_single_model_def Let_def split: if_splits)

lemma sent_try_update_endpoints:
  assumes "rq \<in> set (snd (try_update_endpoints srv eps payload params model_id))"
  shows "\<exists>endpoint. rq = Post endpoint (Some payload) (Some params)"
  using assms
  by (induction eps) (auto simp: Let_def split: if_splits prod.splits)

lemma sent_update_one_plain:
  assumes "update_one_plain py_str srv target (JObj d) = Inr (ok, s)" and "rq \<in> set s"
  shows "\<exists>endpoint. rq = Post endpoint (Some (JObj (build_payload py_str target d)))
                          (Some [(''id'', dict_get d ''id'' (JStr ''unknown''))])"
proof -
  from assms have "rq \<in> set (snd (try_update_endpoints srv [''/models/model/update'', ''/models/update'']
      (JObj (build_payload py_str target d)) [(''id'', dict_get d ''id'' (JStr ''unknown''))]
      (dict_get d ''id'' (JStr ''unknown''))))"
    by (auto simp: update_one_plain_def Let_def split: if_splits)
  then show ?thesis by (rule sent_try_update_endpoints)
qed

lemma tally_counts_once:
  assumes "tally target c job = Inr c'"
  shows "successful_updates c' + skipped_updates c' + failed_updates c' =
         Suc (successful_updates c + skipped_updates c + failed_updates c)"
  using assms by (cases "(target, c, job)" rule: tally.cases) (auto split: if_splits)

lemma tally_all_counts:
  assumes "tally_all target jobs c = Inr c'"
  shows "successful_updates c' + skipped_updates c' + failed_updates c' =
         successful_updates c + skipped_updates c + failed_updates c + length jobs"
  using assms
proof (induction jobs arbitrary: c)
  case Nil
  then show ?case by simp
next
  case (Cons job rest)
  then obtain c1 where t: "tally target c job = Inr c1" and r: "tally_all target rest c1 = Inr c'"
    by (auto split: sum.splits)
  from Cons.IH[OF r] tally_counts_once[OF t] show ?case by simp
qed

lemma tally_Inl_iff: "(\<exists>e. tally target c job = Inl e) \<longleftrightarrow> \<not> is_dict (fst job)"
  by (cases "(target, c, job)" rule: tally.cases) auto

lemma tally_Inl_AttributeError: "tally target c job = Inl e \<Longrightarrow> e = AttributeError"
  by (cases "(target, c, job)" rule: tally.cases) auto

lemma tally_all_Inl_iff:
  "(\<exists>e. tally_all target jobs c = Inl e) \<longleftrightarrow> (\<exists>job \<in> set jobs. \<not> is_dict (fst job))"
proof (induction jobs arbitrary: c)
  case Nil
  then show ?case by simp
next
  case (Cons job rest)
  show ?case
  proof (cases "tally target c job")
    case (Inl e)
    then have "\<not> is_dict (fst job)" using tally_Inl_iff[of target c job] by blast
    with Inl show ?thesis by simp
  next
    case (Inr c1)
    then have "is_dict (fst job)" using tally_Inl_iff[of target c job] by auto
    with Inr Cons.IH[of c1] show ?thesis by simp
  qed
qed

lemma length_as_completed [simp]: "length (as_completed finish jobs) = length jobs"
  by (simp add: as_completed_def)

lemma mset_as_completed: "mset (as_completed finish jobs) = mset jobs"
proof -
  have "mset (as_completed finish jobs) = image_mset (\<lambda>i. jobs ! i) (mset (sort_key finish [0..<length jobs]))"
    by (simp add: as_completed_def)
  also have "\<dots> = image_mset (\<lambda>i. jobs ! i) (mset [0..<length jobs])"
    by simp
  also have "\<dots> = mset (map (\<lambda>i. jobs ! i) [0..<length jobs])"
    by simp
  also have "\<dots> = mset jobs"
    by (simp add: map_nth)
  finally show ?thesis .
qed

lemma set_as_completed [simp]: "set (as_completed finish jobs) = set jobs"
  using mset_as_completed[of finish jobs] by (metis set_mset_mset)

lemma invalid_id_iff:
  "(py_eq (dict_get d ''id'' (JStr ''unknown'')) (JStr ''unknown'') \<or>
    dict_get d ''id'' (JStr ''unknown'') = JNull) \<longleftrightarrow> id_missing_or_unknown d"
  by (auto simp: id_missing_or_unknown_def dict_get_def split: option.splits)

lemma update_single_model_invalid_id:
  assumes "id_missing_or_unknown d"
  shows "update_single_model py_str srv target (JObj d) =
           \<lparr>returned = Inr (JBool False), sent = [], progress = 1\<rparr>"
  using assms invalid_id_iff[of d]
  by (simp add: update_single_model_def Let_def)

lemma update_single_model_at_target:
  assumes "\<not> id_missing_or_unknown d" and "base_model_is d target"
  shows "update_single_model py_str srv target (JObj d) =
           \<lparr>returned = Inr (JBool True), sent = [], progress = 1\<rparr>"
  using assms invalid_id_iff[of d]
  by (simp add: update_single_model_def Let_def base_model_is_def)

lemma py_eq_JNull [simp]: "py_eq JNull x \<longleftrightarrow> x = JNull"
  by (cases x) auto

lemma update_confirmed_iff:
  assumes "model_id \<noteq> JNull"
  shows "truthy (update_confirmed (reply_value rep) model_id) = confirms rep model_id"
proof (cases rep)
  case RequestException
  then show ?thesis by (simp add: update_confirmed_def confirms_def)
next
  case (JsonBody j)
  then show ?thesis using assms
    by (cases j) (auto simp: update_confirmed_def confirms_def dict_get_def split: option.splits)
next
  case (TextBody t)
  then show ?thesis by (simp add: update_confirmed_def confirms_def)
qed

lemma valid_id_not_null:
  assumes "\<not> id_missing_or_unknown d"
  shows "dict_get d ''id'' (JStr ''unknown'') \<noteq> JNull"
    and "dict_get d ''id'' (JStr ''unknown'') \<noteq> JStr ''unknown''"
  using assms by (auto simp: id_missing_or_unknown_def dict_get_def split: option.splits)

lemma update_single_model_dispatched:
  assumes "\<not> id_missing_or_unknown d" and "\<not> base_model_is d target"
  shows "update_single_model py_str srv target (JObj d) =
     (let model_id = dict_get d ''id'' (JStr ''unknown'');
          payload = Some (JObj (build_payload py_str target d));
          params = Some [(''id'', model_id)];
          primary = Post ''/models/model/update'' payload params;
          secondary = Post ''/models/update'' payload params
      in if confirms (srv primary) model_id
         then \<lparr>returned = Inr (update_confirmed (reply_value (srv primary)) model_id),
               sent = [primary], progress = 1\<rparr>
         else \<lparr>returned = Inr (update_confirmed (reply_value (srv secondary)) model_id),
               sent = [primary, secondary], progress = 1\<rparr>)"
  using assms valid_id_not_null[OF assms(1)] update_confirmed_iff[OF valid_id_not_null(1)[OF assms(1)]]
  by (simp add: update_single_model_def Let_def base_model_is_def)



lemma counters_updates_differ [simp]:
  "(c::counters)\<lparr>successful_updates := Suc (successful_updates c)\<rparr> \<noteq>
     c\<lparr>skipped_updates := Suc (skipped_updates c)\<rparr>"
  "(c::counters)\<lparr>failed_updates := Suc (failed_updates c)\<rparr> \<noteq>
     c\<lparr>skipped_updates := Suc (skipped_updates c)\<rparr>"
  by (cases c; simp)+

lemma py_len_iter: "py_len m = Inr k \<Longrightarrow> length (py_iter m) = k"
  by (cases m) auto

lemma py_iter_all_dict:
  assumes "py_len m = Inr k" and "k \<noteq> 0" and "\<forall>x \<in> set (py_iter m). is_dict x"
  shows "m = JArr (py_iter m)"
proof (cases m)
  case (JStr s)
  with assms(1,2) obtain ch rest where "s = ch # rest" by (cases s) auto
  with JStr assms(3) show ?thesis by simp
next
  case (JObj d)
  with assms(1,2) obtain kv rest where "d = kv # rest" by (cases d) auto
  with JObj assms(3) show ?thesis by simp
qed (use assms in auto)

lemma update_models_Completed:
  assumes "update_models cfg py_str srv workers finish = Completed (c, bar)"
  shows "\<exists>ms. extract_models (fst (fetch_models srv)) = JArr ms \<and> ms \<noteq> [] \<and>
              list_all is_dict ms \<and>
              successful_updates c + skipped_updates c + failed_updates c = length ms \<and>
              bar_total bar = length ms"
proof -
  define models where "models = extract_models (fst (fetch_models srv))"
  define ms where "ms = py_iter models"
  define runs where "runs = map (\<lambda>(i, model).
      update_single_model py_str (workers i) (target_model cfg) model) (enumerate 0 ms)"
  define jobs where "jobs = zip ms (map returned runs)"
  define results where "results = (if batch_mode cfg then as_completed finish jobs else jobs)"
  from assms obtain k where len: "py_len models = Inr k" and k: "k \<noteq> 0"
    and t: "tally_all (target_model cfg) results
              \<lparr>successful_updates = 0, failed_updates = 0, skipped_updates = 0\<rparr> = Inr c"
    and bar: "bar_total bar = k"
    by (auto simp: update_models_def Let_def models_def ms_def runs_def jobs_def results_def
             split: prod.splits sum.splits if_splits)
  have lms: "length ms = k" using len by (simp add: ms_def py_len_iter)
  have lruns: "length runs = length ms" by (simp add: runs_def)
  have fstjobs: "map fst jobs = ms" by (simp add: jobs_def lruns)
  have setres: "set results = set jobs" by (simp add: results_def)
  have lres: "length results = length ms" using fstjobs by (simp add: results_def jobs_def lruns)
  have "\<not> (\<exists>e. tally_all (target_model cfg) results
              \<lparr>successful_updates = 0, failed_updates = 0, skipped_updates = 0\<rparr> = Inl e)"
    using t by simp
  then have "\<forall>job \<in> set jobs. is_dict (fst job)"
    unfolding tally_all_Inl_iff setres by blast
  then have "\<forall>x \<in> set (map fst jobs). is_dict x" by simp
  then have alld: "\<forall>x \<in> set ms. is_dict x" unfolding fstjobs .
  have arr: "models = JArr ms"
    using py_iter_all_dict[OF len k] alld unfolding ms_def by blast
  have "successful_updates c + skipped_updates c + failed_updates c = length ms"
    using tally_all_counts[OF t] lres by simp
  moreover have "ms \<noteq> []" using lms k by auto
  moreover have "list_all is_dict ms" using alld by (simp add: list_all_iff)
  ultimately show ?thesis using arr bar lms unfolding models_def by auto
qed

lemma update_models_outcomes:
  "(\<exists>s. update_models cfg py_str srv workers finish = Completed s) \<or>
   update_models cfg py_str srv workers finish = SysExit 1 ''No models found in the API response'' \<or>
   (\<exists>e. update_models cfg py_str srv workers finish = Uncaught e)"
  by (auto simp: update_models_def Let_def split: prod.splits sum.splits)

lemma update_models_zero_records:
  assumes "py_len (extract_models (fst (fetch_models srv))) = Inr 0"
  shows "update_models cfg py_str srv workers finish =
           SysExit 1 ''No models found in the API response''"
  using assms by (cases "fetch_models srv") (simp add: update_models_def Let_def)

lemma tally_all_Inr:
  assumes "\<forall>job \<in> set jobs. is_dict (fst job)"
  shows "\<exists>c'. tally_all target jobs c = Inr c'"
proof -
  have "\<not> (\<exists>e. tally_all target jobs c = Inl e)"
    unfolding tally_all_Inl_iff using assms by blast
  then show ?thesis by (cases "tally_all target jobs c") auto
qed

lemma update_models_usable:
  assumes "usable_listing (extract_models (fst (fetch_models srv)))"
    and pool: "\<not> (batch_mode cfg \<and> max_workers cfg \<le> 0)"
  shows "\<exists>s. update_models cfg py_str srv workers finish = Completed s"
proof -
  from assms(1) obtain ms where arr: "extract_models (fst (fetch_models srv)) = JArr ms"
    and ne: "ms \<noteq> []" and alld: "list_all is_dict ms"
    by (auto simp: usable_listing_def split: json.splits)
  define runs where "runs = map (\<lambda>(i, model).
      update_single_model py_str (workers i) (target_model cfg) model) (enumerate 0 ms)"
  define jobs where "jobs = zip ms (map returned runs)"
  define results where "results = (if batch_mode cfg then as_completed finish jobs else jobs)"
  have lruns: "length runs = length ms" by (simp add: runs_def)
  have fstjobs: "map fst jobs = ms" by (simp add: jobs_def lruns)
  have setres: "set results = set jobs" by (simp add: results_def)
  have "\<forall>x \<in> set (map fst jobs). is_dict x"
    unfolding fstjobs using alld by (simp add: list_all_iff)
  then have "\<forall>job \<in> set results. is_dict (fst job)" unfolding setres by simp
  from tally_all_Inr[OF this] obtain c where
    "tally_all (target_model cfg) results
       \<lparr>successful_updates = 0, failed_updates = 0, skipped_updates = 0\<rparr> = Inr c" by blast
  then have t: "tally_all (target_model cfg)
       (if batch_mode cfg
        then as_completed finish (zip ms (map returned (map (\<lambda>(i, model).
               update_single_model py_str (workers i) (target_model cfg) model) (enumerate 0 ms))))
        else zip ms (map returned (map (\<lambda>(i, model).
               update_single_model py_str (workers i) (target_model cfg) model) (enumerate 0 ms))))
       \<lparr>successful_updates = 0, failed_updates = 0, skipped_updates = 0\<rparr> = Inr c"
    unfolding results_def jobs_def runs_def .
  show ?thesis
    using t arr ne pool
    by (cases "fetch_models srv") (auto simp: update_models_def Let_def split: sum.splits)
qed

lemma update_models_no_pool:
  assumes "batch_mode cfg" and "max_workers cfg \<le> 0"
  shows "\<nexists>s. update_models cfg py_str srv workers finish = Completed s"
  using assms
  by (cases "fetch_models srv") (auto simp: update_models_def Let_def split: sum.splits)

lemma update_models_exit_status:
  "exit_status (update_models cfg py_str srv workers finish) =
     (if usable_listing (extract_models (fst (fetch_models srv))) \<and>
         \<not> (batch_mode cfg \<and> max_workers cfg \<le> 0)
      then 0 else 1)"
proof (cases "usable_listing (extract_models (fst (fetch_models srv))) \<and>
              \<not> (batch_mode cfg \<and> max_workers cfg \<le> 0)")
  case True
  then obtain s where "update_models cfg py_str srv workers finish = Completed s"
    using update_models_usable[of srv cfg py_str workers finish] by blast
  with True show ?thesis by simp
next
  case False
  have "\<nexists>s. update_models cfg py_str srv workers finish = Completed s"
  proof (cases "usable_listing (extract_models (fst (fetch_models srv)))")
    case True
    with False have "batch_mode cfg" "max_workers cfg \<le> 0" by auto
    then show ?thesis by (rule update_models_no_pool)
  next
    case unusable: False
    show ?thesis
    proof
      assume "\<exists>s. update_models cfg py_str srv workers finish = Completed s"
      then obtain c bar where "update_models cfg py_str srv workers finish = Completed (c, bar)"
        by (metis surj_pair)
      from update_models_Completed[OF this] unusable show False
        by (auto simp: usable_listing_def)
    qed
  qed
  with update_models_outcomes[of cfg py_str srv workers finish] False show ?thesis
    by auto
qed

lemma dict_has_nonempty: "dict_has d k \<Longrightarrow> d \<noteq> []"
  by (auto simp: dict_has_def)

lemma listing_ok_iff: "listing_ok (reply_value rep) = listing_recognised rep"
proof (cases rep)
  case (JsonBody j)
  then show ?thesis
    by (cases j) (auto simp: listing_ok_def listing_recognised_def dest: dict_has_nonempty)
qed (simp_all add: listing_ok_def listing_recognised_def)

lemma primary_ok_iff:
  "(truthy (reply_value rep) \<and> is_list (reply_value rep)) = nonempty_list_body rep"
proof (cases rep)
  case (JsonBody j)
  then show ?thesis by (cases j) (auto simp: nonempty_list_body_def)
qed (simp_all add: nonempty_list_body_def)

lemma plain_recognised_iff:
  "((truthy (reply_value rep) \<and> is_list (reply_value rep)) \<or>
    (truthy (reply_value rep) \<and>
     (case reply_value rep of JObj d \<Rightarrow> dict_has d ''models'' \<or> dict_has d ''data'' | _ \<Rightarrow> False)))
   = listing_recognised rep"
proof (cases rep)
  case (JsonBody j)
  then show ?thesis
    by (cases j) (auto simp: listing_recognised_def dest: dict_has_nonempty)
qed (simp_all add: listing_recognised_def)

lemma recognised_split:
  "listing_recognised rep = (nonempty_list_body rep \<or> mapping_with_key rep)"
proof (cases rep)
  case (JsonBody j)
  then show ?thesis
    by (cases j) (auto simp: listing_recognised_def nonempty_list_body_def mapping_with_key_def)
qed (simp_all add: listing_recognised_def nonempty_list_body_def mapping_with_key_def)

lemma try_endpoints_first_success:
  "try_endpoints srv paths =
     (case fst (first_success listing_recognised srv paths) of
        None \<Rightarrow> JNull
      | Some rep \<Rightarrow> extract_models (reply_value rep),
      snd (first_success listing_recognised srv paths))"
proof (induction paths)
  case Nil
  then show ?case by simp
next
  case (Cons path rest)
  show ?case
  proof (cases "listing_recognised (srv (Get path None))")
    case True
    then show ?thesis
      using plain_recognised_iff[of "srv (Get path None)"]
      by (auto simp: Let_def extract_models_def split: json.splits)
  next
    case False
    then show ?thesis
      using plain_recognised_iff[of "srv (Get path None)"] Cons.IH
      by (auto simp: Let_def split_beta split: json.splits)
  qed
qed

lemma try_alternatives_first_success:
  "try_alternatives srv paths r =
     (case fst (first_success listing_recognised srv paths) of
        None \<Rightarrow> (if paths = [] then r else reply_value (srv (Get (last paths) None)))
      | Some rep \<Rightarrow> reply_value rep,
      snd (first_success listing_recognised srv paths))"
proof (induction paths arbitrary: r)
  case Nil
  then show ?case by simp
next
  case (Cons path rest)
  show ?case
  proof (cases "listing_recognised (srv (Get path None))")
    case True
    then show ?thesis by (simp add: listing_ok_iff)
  next
    case False
    then show ?thesis
      using Cons.IH[of "reply_value (srv (Get path None))"]
      by (cases rest) (auto simp: listing_ok_iff split_beta Let_def split: option.splits)
  qed
qed

lemma fetch_models_first_success:
  assumes "\<not> mapping_with_key (srv (Get ''/models'' None))"
  shows "fetch_models srv =
     (case fst (first_success listing_recognised srv listing_paths) of
        None \<Rightarrow> reply_value (srv (Get ''/v1/models'' None))
      | Some rep \<Rightarrow> reply_value rep,
      snd (first_success listing_recognised srv listing_paths))"
proof (cases "nonempty_list_body (srv (Get ''/models'' None))")
  case True
  then have "listing_recognised (srv (Get ''/models'' None))" by (simp add: recognised_split)
  with True primary_ok_iff[of "srv (Get ''/models'' None)"] show ?thesis
    by (simp add: fetch_models_def listing_paths_def del: try_alternatives.simps)
next
  case False
  with assms have n: "\<not> listing_recognised (srv (Get ''/models'' None))"
    by (simp add: recognised_split)
  from False primary_ok_iff[of "srv (Get ''/models'' None)"]
  have p: "\<not> (truthy (reply_value (srv (Get ''/models'' None))) \<and>
               is_list (reply_value (srv (Get ''/models'' None))))" by simp
  show ?thesis
    using n p
    by (simp add: fetch_models_def listing_paths_def try_alternatives_first_success
          split_beta Let_def del: try_alternatives.simps first_success.simps
          add: first_success.simps(2)[of _ _ "''/models''"] cong: option.case_cong)
qed

lemma not_listing_ok_zero:
  assumes "\<not> listing_ok r"
  shows "py_len (extract_models r) = Inr 0"
  using assms
  by (cases r) (auto simp: listing_ok_def extract_models_def dict_get_def dict_has_def
                     split: option.splits)

lemma try_alternatives_unrecognised:
  assumes "\<forall>rq. \<not> listing_recognised (srv rq)" and "\<not> listing_ok r"
  shows "\<not> listing_ok (fst (try_alternatives srv paths r))"
  using assms(2)
proof (induction paths arbitrary: r)
  case Nil
  then show ?case by simp
next
  case (Cons path rest)
  have "\<not> listing_ok (reply_value (srv (Get path None)))"
    using assms(1) by (simp add: listing_ok_iff)
  with Cons.IH[of "reply_value (srv (Get path None))"] show ?case
    by (simp add: split_beta Let_def)
qed

lemma fetch_models_unrecognised:
  assumes "\<forall>rq. \<not> listing_recognised (srv rq)"
  shows "\<not> listing_ok (fst (fetch_models srv))"
proof -
  have r: "\<not> listing_ok (reply_value (srv (Get ''/models'' None)))"
    using assms by (simp add: listing_ok_iff)
  then have "\<not> (truthy (reply_value (srv (Get ''/models'' None))) \<and>
                 is_list (reply_value (srv (Get ''/models'' None))))"
    by (auto simp: listing_ok_def)
  with try_alternatives_unrecognised[OF assms r] show ?thesis
    by (simp add: fetch_models_def split_beta Let_def del: try_alternatives.simps)
qed

lemma update_models_plain_no_models:
  assumes "plain_models (fst (try_endpoints srv listing_paths)) = []"
  shows "update_models_plain target py_str srv workers =
           SysExit 1 (if truthy (fst (try_endpoints srv listing_paths))
                      then ''No models found in the API response''
                      else ''Failed to fetch models from any endpoint'')"
  using assms
  by (cases "try_endpoints srv [''/models'', ''/models/'', ''/models/list'', ''/v1/models'']")
     (simp add: update_models_plain_def listing_paths_def Let_def del: try_endpoints.simps)

lemma tally_one_counter:
  assumes "tally target c job = Inr c'"
  shows "c' = c\<lparr>successful_updates := successful_updates c + 1\<rparr> \<or>
         c' = c\<lparr>failed_updates := failed_updates c + 1\<rparr> \<or>
         c' = c\<lparr>skipped_updates := skipped_updates c + 1\<rparr>"
  using assms by (cases "(target, c, job)" rule: tally.cases) (auto split: if_splits)

section \<open>The properties\<close>

text \<open>
  C1. Every update request that goes out for a record, from the batch scripts or from
  \<^verbatim>\<open>update-models.py\<close>, carries as its body the record with \<^verbatim>\<open>base_model_id\<close> set to
  the target model: every other key of the record is there with its value, and a key
  the record does not have is there only if it is \<^verbatim>\<open>name\<close>, \<^verbatim>\<open>meta\<close> or \<^verbatim>\<open>params\<close>, with
  its default. The id travels as the query parameter.
\<close>

theorem C1_payload_keeps_record:
  assumes "rq \<in> set (sent (update_single_model py_str srv target model)) \<or>
           (\<exists>ok s. update_one_plain py_str srv target model = Inr (ok, s) \<and> rq \<in> set s)"
  shows "\<exists>d endpoint p.
           model = JObj d \<and>
           rq = Post endpoint (Some (JObj p)) (Some [(''id'', dict_get d ''id'' (JStr ''unknown''))]) \<and>
           map_of p ''base_model_id'' = Some (JStr target) \<and>
           (\<forall>k v. k \<noteq> ''base_model_id'' \<and> map_of d k = Some v \<longrightarrow> map_of p k = Some v) \<and>
           (\<forall>k. k \<noteq> ''base_model_id'' \<and> map_of d k = None \<longrightarrow>
                 map_of p k =
                   (if k = ''name'' then Some (JStr ''unknown'')
                    else if k = ''meta''
                    then Some (default_meta py_str target (dict_get d ''name'' (JStr ''unknown'')))
                    else if k = ''params'' then Some (JObj [])
                    else None))"
proof -
  have dict: "\<exists>d. model = JObj d"
    using assms by (cases model) (auto simp: update_single_model_def update_one_plain_def)
  then obtain d where m: "model = JObj d" ..
  have "\<exists>endpoint. rq = Post endpoint (Some (JObj (build_payload py_str target d)))
                          (Some [(''id'', dict_get d ''id'' (JStr ''unknown''))])"
    using assms sent_update_single_model sent_update_one_plain unfolding m by blast
  then obtain endpoint where rq:
    "rq = Post endpoint (Some (JObj (build_payload py_str target d)))
            (Some [(''id'', dict_get d ''id'' (JStr ''unknown''))])" ..
  let ?p = "build_payload py_str target d"
  have 1: "map_of ?p ''base_model_id'' = Some (JStr target)"
    by (simp add: map_of_build_payload)
  have 2: "\<forall>k v. k \<noteq> ''base_model_id'' \<and> map_of d k = Some v \<longrightarrow> map_of ?p k = Some v"
    by (simp add: map_of_build_payload)
  have 3: "\<forall>k. k \<noteq> ''base_model_id'' \<and> map_of d k = None \<longrightarrow>
                 map_of ?p k =
                   (if k = ''name'' then Some (JStr ''unknown'')
                    else if k = ''meta''
                    then Some (default_meta py_str target (dict_get d ''name'' (JStr ''unknown'')))
                    else if k = ''params'' then Some (JObj [])
                    else None)"
    by (simp add: map_of_build_payload)
  from m rq 1 2 3 show ?thesis by blast
qed

theorem C1_payload_keeps_record_witness:
  "Post ''/models/update'' (Some (JObj payload_c)) (Some [(''id'', JStr ''c'')])
     \<in> set (sent (update_single_model ex_str srv_confirm_b ''new-model'' (JObj rec_c))) \<and>
   map_of payload_c ''base_model_id'' = Some (JStr ''new-model'') \<and>
   map_of payload_c ''id'' = Some (JStr ''c'') \<and>
   map_of payload_c ''params'' = Some (JObj [])"
proof -
  let ?rq = "Post ''/models/update'' (Some (JObj payload_c)) (Some [(''id'', JStr ''c'')])"
  have h: "?rq \<in> set (sent (update_single_model ex_str srv_confirm_b ''new-model'' (JObj rec_c)))"
    by (simp add: update_single_model_def build_payload_def default_meta_def dict_get_def
          dict_has_def update_confirmed_def srv_confirm_b_def rec_c_def payload_c_def ex_str_def Let_def)
  from C1_payload_keeps_record[OF disjI1[OF h]] obtain d endpoint p where
    "JObj rec_c = JObj d" and
    "?rq = Post endpoint (Some (JObj p)) (Some [(''id'', dict_get d ''id'' (JStr ''unknown''))])" and
    "map_of p ''base_model_id'' = Some (JStr ''new-model'')" and
    "\<forall>k v. k \<noteq> ''base_model_id'' \<and> map_of d k = Some v \<longrightarrow> map_of p k = Some v" and
    "\<forall>k. k \<noteq> ''base_model_id'' \<and> map_of d k = None \<longrightarrow>
                 map_of p k =
                   (if k = ''name'' then Some (JStr ''unknown'')
                    else if k = ''meta''
                    then Some (default_meta ex_str ''new-model'' (dict_get d ''name'' (JStr ''unknown'')))
                    else if k = ''params'' then Some (JObj [])
                    else None)"
    by blast
  then have "p = payload_c" "d = rec_c" by simp_all
  with \<open>map_of p ''base_model_id'' = Some (JStr ''new-model'')\<close>
    \<open>\<forall>k v. k \<noteq> ''base_model_id'' \<and> map_of d k = Some v \<longrightarrow> map_of p k = Some v\<close>
    \<open>\<forall>k. k \<noteq> ''base_model_id'' \<and> map_of d k = None \<longrightarrow> map_of p k = _\<close>
  have "map_of payload_c ''base_model_id'' = Some (JStr ''new-model'')"
    "map_of payload_c ''id'' = Some (JStr ''c'')"
    "map_of payload_c ''params'' = Some (JObj [])"
    by (simp_all add: rec_c_def)
  with h show ?thesis by blast
qed

text \<open>
  C2. A record that already has the target model as its base model makes
  \<^verbatim>\<open>update_single_model\<close> return \<^verbatim>\<open>True\<close> without a request, and the loop over the
  results counts \<^verbatim>\<open>True\<close> under \<^verbatim>\<open>successful_updates\<close>. Of three records, the first
  at the target, the second confirmed on the primary path and the third refused on
  both paths, the summary is 2 updated, 0 skipped and 1 failed.
\<close>

theorem C2_at_target_counted_as_updated:
  "update_single_model ex_str srv_confirm_b ''new-model'' (JObj rec_a) =
     \<lparr>returned = Inr (JBool True), sent = [], progress = 1\<rparr> \<and>
   update_models ex_cfg ex_str (srv_list (JArr [JObj rec_a, JObj rec_b, JObj rec_c]))
       ex_workers ex_finish =
     Completed (\<lparr>successful_updates = 2, failed_updates = 1, skipped_updates = 0\<rparr>,
                \<lparr>bar_total = 3, bar_n = 3\<rparr>)"
  by code_simp

text \<open>
  C3, as stated, fails: a run over one record without an id ends with that record
  among the failed ones of the summary.
\<close>

theorem C3_counterexample:
  "id_missing_or_unknown rec_noid \<and>
   update_models ex_cfg ex_str (srv_list (JArr [JObj rec_noid])) ex_workers ex_finish =
     Completed (\<lparr>successful_updates = 0, failed_updates = 1, skipped_updates = 0\<rparr>,
                \<lparr>bar_total = 1, bar_n = 1\<rparr>)"
  by code_simp

text \<open>
  C3, amended. For a record whose id is missing or the marker \<^verbatim>\<open>unknown\<close>, no request
  is sent and the progress bar moves by one; the loop over the results then counts
  the record once, as skipped when its base model is the target and as failed
  otherwise, never as updated.
\<close>

theorem C3_invalid_id_no_call_but_counted:
  assumes "id_missing_or_unknown d"
  shows "sent (update_single_model py_str srv target (JObj d)) = [] \<and>
         progress (update_single_model py_str srv target (JObj d)) = 1 \<and>
         tally target c (JObj d, returned (update_single_model py_str srv target (JObj d))) =
           Inr (if base_model_is d target
                then c\<lparr>skipped_updates := skipped_updates c + 1\<rparr>
                else c\<lparr>failed_updates := failed_updates c + 1\<rparr>)"
  by (simp add: update_single_model_invalid_id[OF assms] base_model_is_def)

theorem C3_invalid_id_no_call_but_counted_witness:
  "id_missing_or_unknown rec_noid \<and>
   sent (update_single_model ex_str srv_confirm_b ''new-model'' (JObj rec_noid)) = [] \<and>
   progress (update_single_model ex_str srv_confirm_b ''new-model'' (JObj rec_noid)) = 1 \<and>
   tally ''new-model'' \<lparr>successful_updates = 0, failed_updates = 0, skipped_updates = 0\<rparr>
     (JObj rec_noid, returned (update_single_model ex_str srv_confirm_b ''new-model'' (JObj rec_noid))) =
     Inr \<lparr>successful_updates = 0, failed_updates = 1, skipped_updates = 0\<rparr>"
proof -
  have h: "id_missing_or_unknown rec_noid"
    by (simp add: id_missing_or_unknown_def rec_noid_def)
  have b: "\<not> base_model_is rec_noid ''new-model''"
    by (simp add: base_model_is_def dict_get_def rec_noid_def)
  from C3_invalid_id_no_call_but_counted[OF h, of ex_str srv_confirm_b "''new-model''"
      "\<lparr>successful_updates = 0, failed_updates = 0, skipped_updates = 0\<rparr>"] h b
  show ?thesis by simp
qed

text \<open>
  C4, as stated, fails in two ways. In \<^verbatim>\<open>update-models.py\<close> a service that answers every
  listing path with the empty list ends the run with the line for a failed fetch. In
  the batch scripts a service whose listing paths all fail ends the run with the same
  line as one that answers with the empty list: there is no line for a failed fetch.
\<close>

theorem C4_counterexample:
  "update_models_plain ''new-model'' ex_str (srv_const (JsonBody (JArr []))) ex_workers =
     SysExit 1 ''Failed to fetch models from any endpoint'' \<and>
   update_models ex_cfg ex_str (srv_const RequestException) ex_workers ex_finish =
     SysExit 1 ''No models found in the API response'' \<and>
   update_models ex_cfg ex_str (srv_const (JsonBody (JArr []))) ex_workers ex_finish =
     SysExit 1 ''No models found in the API response''"
  by code_simp

text \<open>
  C4, amended. When the value fetched holds no records, a batch script logs
  \<^verbatim>\<open>No models found in the API response\<close> and exits with status 1; it does the same
  when no listing path is recognised. When \<^verbatim>\<open>update-models.py\<close> ends up with no
  models it exits with status 1.
\<close>

theorem C4_zero_records_fatal:
  "(py_len (extract_models (fst (fetch_models srv))) = Inr 0 \<longrightarrow>
      update_models cfg py_str srv workers finish =
        SysExit 1 ''No models found in the API response'') \<and>
   ((\<forall>rq. \<not> listing_recognised (srv rq)) \<longrightarrow>
      update_models cfg py_str srv workers finish =
        SysExit 1 ''No models found in the API response'') \<and>
   (plain_models (fst (try_endpoints srv listing_paths)) = [] \<longrightarrow>
      exit_status (update_models_plain target py_str srv workers) = 1)"
  using update_models_zero_records[of srv cfg py_str workers finish]
        not_listing_ok_zero[OF fetch_models_unrecognised[of srv]]
        update_models_plain_no_models[of srv target py_str workers]
  by simp

theorem C4_zero_records_fatal_witness:
  "py_len (extract_models (fst (fetch_models (srv_const (JsonBody (JArr [])))))) = Inr 0 \<and>
   update_models ex_cfg ex_str (srv_const (JsonBody (JArr []))) ex_workers ex_finish =
     SysExit 1 ''No models found in the API response'' \<and>
   (\<forall>rq. \<not> listing_recognised (srv_const (TextBody ''Bad Gateway'') rq)) \<and>
   update_models ex_cfg ex_str (srv_const (TextBody ''Bad Gateway'')) ex_workers ex_finish =
     SysExit 1 ''No models found in the API response'' \<and>
   plain_models (fst (try_endpoints (srv_const (JsonBody (JArr []))) listing_paths)) = [] \<and>
   exit_status (update_models_plain ''new-model'' ex_str (srv_const (JsonBody (JArr []))) ex_workers) = 1"
proof -
  have a: "py_len (extract_models (fst (fetch_models (srv_const (JsonBody (JArr [])))))) = Inr 0"
    by (simp add: fetch_models_def extract_models_def listing_ok_def srv_const_def)
  have b: "\<forall>rq. \<not> listing_recognised (srv_const (TextBody ''Bad Gateway'') rq)"
    by (simp add: listing_recognised_def srv_const_def)
  have c: "plain_models (fst (try_endpoints (srv_const (JsonBody (JArr []))) listing_paths)) = []"
    by (simp add: plain_models_def listing_paths_def srv_const_def)
  from C4_zero_records_fatal[of "srv_const (JsonBody (JArr []))" ex_cfg ex_str ex_workers ex_finish
      "''new-model''"] a c
  have 1: "update_models ex_cfg ex_str (srv_const (JsonBody (JArr []))) ex_workers ex_finish =
             SysExit 1 ''No models found in the API response''"
    and 3: "exit_status (update_models_plain ''new-model'' ex_str (srv_const (JsonBody (JArr [])))
              ex_workers) = 1"
    by blast+
  from C4_zero_records_fatal[of "srv_const (TextBody ''Bad Gateway'')" ex_cfg ex_str ex_workers
      ex_finish] b
  have 2: "update_models ex_cfg ex_str (srv_const (TextBody ''Bad Gateway'')) ex_workers ex_finish =
             SysExit 1 ''No models found in the API response''"
    by blast
  from a b c 1 2 3 show ?thesis by blast
qed

text \<open>
  C5, as stated, fails in two ways. The listing path answers with a list of one
  element that is not an object: the fetch succeeded and a record was found, and the
  run ends with an uncaught \<^verbatim>\<open>AttributeError\<close>, that is with status 1. And with the
  worker count \<^verbatim>\<open>-1\<close> a run in batch mode that fetched one record ends with the
  \<^verbatim>\<open>ValueError\<close> of the pool, again with status 1.
\<close>

theorem C5_counterexample:
  "fetch_models (srv_list (JArr [JNum 5])) = (JArr [JNum 5], [Get ''/models'' None]) \<and>
   extract_models (JArr [JNum 5]) = JArr [JNum 5] \<and>
   update_models ex_cfg ex_str (srv_list (JArr [JNum 5])) ex_workers ex_finish =
     Uncaught AttributeError \<and>
   exit_status (update_models ex_cfg ex_str (srv_list (JArr [JNum 5])) ex_workers ex_finish) = 1 \<and>
   fetch_models (srv_list (JArr [JObj rec_c])) = (JArr [JObj rec_c], [Get ''/models'' None]) \<and>
   update_models (ex_cfg\<lparr>max_workers := - 1\<rparr>) ex_str (srv_list (JArr [JObj rec_c]))
       ex_workers ex_finish =
     Uncaught ValueError \<and>
   exit_status (update_models (ex_cfg\<lparr>max_workers := - 1\<rparr>) ex_str (srv_list (JArr [JObj rec_c]))
       ex_workers ex_finish) = 1"
  by code_simp

text \<open>
  C5, amended. A batch script exits with status 0 exactly when the value fetched is a
  list, not empty, of JSON objects and, in batch mode, the worker count is positive,
  whatever becomes of the updates; in every other case it exits with status 1. The
  exit through \<^verbatim>\<open>sys.exit(1)\<close> is taken exactly when the value fetched has no records.
\<close>

theorem C5_exit_status:
  "exit_status (update_models cfg py_str srv workers finish) =
     (if usable_listing (extract_models (fst (fetch_models srv))) \<and>
         \<not> (batch_mode cfg \<and> max_workers cfg \<le> 0)
      then 0 else 1) \<and>
   (update_models cfg py_str srv workers finish = SysExit 1 ''No models found in the API response''
      \<longleftrightarrow> py_len (extract_models (fst (fetch_models srv))) = Inr 0)"
proof -
  have "update_models cfg py_str srv workers finish =
          SysExit 1 ''No models found in the API response'' \<Longrightarrow>
        py_len (extract_models (fst (fetch_models srv))) = Inr 0"
    by (cases "fetch_models srv")
       (auto simp: update_models_def Let_def split: sum.splits if_splits)
  with update_models_zero_records[of srv cfg py_str workers finish]
       update_models_exit_status[of cfg py_str srv workers finish]
  show ?thesis by blast
qed

theorem C5_exit_status_witness:
  "usable_listing (extract_models (fst (fetch_models (srv_list (JArr [JObj rec_c]))))) \<and>
   batch_mode ex_cfg \<and> 0 < max_workers ex_cfg \<and>
   update_models ex_cfg ex_str (srv_list (JArr [JObj rec_c])) ex_workers ex_finish =
     Completed (\<lparr>successful_updates = 0, failed_updates = 1, skipped_updates = 0\<rparr>,
                \<lparr>bar_total = 1, bar_n = 1\<rparr>) \<and>
   exit_status (update_models ex_cfg ex_str (srv_list (JArr [JObj rec_c])) ex_workers ex_finish) = 0"
proof -
  have u: "usable_listing (extract_models (fst (fetch_models (srv_list (JArr [JObj rec_c])))))"
    by (simp add: usable_listing_def extract_models_def fetch_models_def srv_list_def)
  have w: "batch_mode ex_cfg" "0 < max_workers ex_cfg"
    by (simp_all add: ex_cfg_def)
  have r: "update_models ex_cfg ex_str (srv_list (JArr [JObj rec_c])) ex_workers ex_finish =
     Completed (\<lparr>successful_updates = 0, failed_updates = 1, skipped_updates = 0\<rparr>,
                \<lparr>bar_total = 1, bar_n = 1\<rparr>)"
    by code_simp
  from C5_exit_status[of ex_cfg ex_str "srv_list (JArr [JObj rec_c])" ex_workers ex_finish] u w
  have "exit_status (update_models ex_cfg ex_str (srv_list (JArr [JObj rec_c])) ex_workers ex_finish) = 0"
    by simp
  with u w r show ?thesis by blast
qed



text \<open>
  C7, as stated, fails in both directions. An empty list is a list, and yet every
  script goes on to the next path after it. An object whose \<^verbatim>\<open>models\<close> is the number 5
  has no list under \<^verbatim>\<open>models\<close> or \<^verbatim>\<open>data\<close>, and yet \<^verbatim>\<open>update-models.py\<close> stops at it on
  its first path, as the batch scripts do on their first fallback path.
\<close>

theorem C7_counterexample:
  "listing_success_spec (JsonBody (JArr [])) \<and>
   snd (first_success listing_success_spec (srv_const (JsonBody (JArr []))) listing_paths) =
     [Get ''/models'' None] \<and>
   snd (try_endpoints (srv_const (JsonBody (JArr []))) listing_paths) =
     [Get ''/models'' None, Get ''/models/'' None, Get ''/models/list'' None, Get ''/v1/models'' None] \<and>
   snd (fetch_models (srv_const (JsonBody (JArr [])))) =
     [Get ''/models'' None, Get ''/models/'' None, Get ''/models/list'' None, Get ''/v1/models'' None] \<and>
   \<not> listing_success_spec (JsonBody (JObj [(''models'', JNum 5)])) \<and>
   snd (first_success listing_success_spec (srv_const (JsonBody (JObj [(''models'', JNum 5)])))
          listing_paths) =
     [Get ''/models'' None, Get ''/models/'' None, Get ''/models/list'' None, Get ''/v1/models'' None] \<and>
   try_endpoints (srv_const (JsonBody (JObj [(''models'', JNum 5)]))) listing_paths =
     (JNum 5, [Get ''/models'' None]) \<and>
   snd (first_success listing_success_spec (srv_fallback (JObj [(''models'', JNum 5)]))
          listing_paths) =
     [Get ''/models'' None, Get ''/models/'' None, Get ''/models/list'' None, Get ''/v1/models'' None] \<and>
   fetch_models (srv_fallback (JObj [(''models'', JNum 5)])) =
     (JObj [(''models'', JNum 5)], [Get ''/models'' None, Get ''/models/'' None])"
  by code_simp

text \<open>
  C7, amended. A listing reply is recognised exactly when its body parses as JSON and
  is a list that is not empty, or an object with a \<^verbatim>\<open>models\<close> or a \<^verbatim>\<open>data\<close> key, whatever
  the value under it. The paths are tried in order and the search stops at the first
  reply recognised: \<^verbatim>\<open>update-models.py\<close> goes on with the list of that reply, or with
  the value under its key, and with nothing when no reply is recognised; the batch
  scripts go on with that reply, and with the last reply when none is recognised.
  For the batch scripts this is stated of the runs in which the primary path does not
  answer with an object that has one of the two keys.
\<close>

theorem C7_listing_search:
  "listing_ok (reply_value rep) = listing_recognised rep \<and>
   listing_recognised rep = (nonempty_list_body rep \<or> mapping_with_key rep) \<and>
   try_endpoints srv paths =
     (case fst (first_success listing_recognised srv paths) of
        None \<Rightarrow> JNull
      | Some rep \<Rightarrow> extract_models (reply_value rep),
      snd (first_success listing_recognised srv paths)) \<and>
   (\<not> mapping_with_key (srv (Get ''/models'' None)) \<longrightarrow>
      fetch_models srv =
        (case fst (first_success listing_recognised srv listing_paths) of
           None \<Rightarrow> reply_value (srv (Get ''/v1/models'' None))
         | Some rep \<Rightarrow> reply_value rep,
         snd (first_success listing_recognised srv listing_paths)))"
  using listing_ok_iff[of rep] recognised_split[of rep] try_endpoints_first_success[of srv paths]
        fetch_models_first_success[of srv]
  by blast

theorem C7_listing_search_witness:
  "\<not> mapping_with_key (srv_fallback (JArr [JObj rec_c]) (Get ''/models'' None)) \<and>
   first_success listing_recognised (srv_fallback (JArr [JObj rec_c])) listing_paths =
     (Some (JsonBody (JArr [JObj rec_c])), [Get ''/models'' None, Get ''/models/'' None]) \<and>
   fetch_models (srv_fallback (JArr [JObj rec_c])) =
     (JArr [JObj rec_c], [Get ''/models'' None, Get ''/models/'' None]) \<and>
   try_endpoints (srv_fallback (JObj [(''data'', JArr [JObj rec_c])])) listing_paths =
     (JArr [JObj rec_c], [Get ''/models'' None, Get ''/models/'' None])"
proof -
  let ?srv = "srv_fallback (JArr [JObj rec_c])"
  let ?srv' = "srv_fallback (JObj [(''data'', JArr [JObj rec_c])])"
  have h: "\<not> mapping_with_key (?srv (Get ''/models'' None))"
    by (simp add: mapping_with_key_def srv_fallback_def)
  have f: "first_success listing_recognised ?srv listing_paths =
     (Some (JsonBody (JArr [JObj rec_c])), [Get ''/models'' None, Get ''/models/'' None])"
    by (simp add: listing_recognised_def srv_fallback_def listing_paths_def)
  have f': "first_success listing_recognised ?srv' listing_paths =
     (Some (JsonBody (JObj [(''data'', JArr [JObj rec_c])])),
      [Get ''/models'' None, Get ''/models/'' None])"
    by (simp add: listing_recognised_def srv_fallback_def listing_paths_def dict_has_def)
  from C7_listing_search[of _ ?srv listing_paths] h f
  have 1: "fetch_models ?srv = (JArr [JObj rec_c], [Get ''/models'' None, Get ''/models/'' None])"
    by simp
  from C7_listing_search[of _ ?srv' listing_paths] f'
  have 2: "try_endpoints ?srv' listing_paths =
     (JArr [JObj rec_c], [Get ''/models'' None, Get ''/models/'' None])"
    by (simp add: extract_models_def dict_get_def)
  from h f 1 2 show ?thesis by blast
qed

text \<open>
  C8. The extraction of the batch scripts follows the rule: from an object, the value
  under \<^verbatim>\<open>models\<close> when the key is there, else the value under \<^verbatim>\<open>data\<close> when that key is
  there, else the empty list. But the object never reaches the extraction when it is
  the primary path that answers with it. A service that answers \<^verbatim>\<open>/models\<close> with an
  object holding one record under \<^verbatim>\<open>data\<close>, and fails on the other paths, makes the
  batch script drop the answer, try the three other paths and exit with
  \<^verbatim>\<open>No models found in the API response\<close>; the same service answering with the list
  alone makes it run over the record, and \<^verbatim>\<open>update-models.py\<close> runs over the record in
  both cases.
\<close>

theorem C8_mapping_on_primary_path_dropped:
  "extract_models (JObj d) =
     (case map_of d ''models'' of
        Some v \<Rightarrow> v
      | None \<Rightarrow> (case map_of d ''data'' of Some v \<Rightarrow> v | None \<Rightarrow> JArr [])) \<and>
   extract_models (JObj [(''data'', JArr [JObj rec_c])]) = extract_models (JArr [JObj rec_c]) \<and>
   fetch_models (srv_list (JObj [(''data'', JArr [JObj rec_c])])) =
     (JNull,
      [Get ''/models'' None, Get ''/models/'' None, Get ''/models/list'' None, Get ''/v1/models'' None]) \<and>
   update_models ex_cfg ex_str (srv_list (JObj [(''data'', JArr [JObj rec_c])])) ex_workers ex_finish =
     SysExit 1 ''No models found in the API response'' \<and>
   update_models ex_cfg ex_str (srv_list (JArr [JObj rec_c])) ex_workers ex_finish =
     Completed (\<lparr>successful_updates = 0, failed_updates = 1, skipped_updates = 0\<rparr>,
                \<lparr>bar_total = 1, bar_n = 1\<rparr>) \<and>
   update_models_plain ''new-model'' ex_str (srv_list (JObj [(''data'', JArr [JObj rec_c])]))
       ex_workers =
     Completed \<lparr>plain_successful_updates = 0, plain_model_count = 1\<rparr> \<and>
   update_models_plain ''new-model'' ex_str (srv_list (JArr [JObj rec_c])) ex_workers =
     Completed \<lparr>plain_successful_updates = 0, plain_model_count = 1\<rparr>"
proof -
  have rule: "extract_models (JObj d) =
     (case map_of d ''models'' of
        Some v \<Rightarrow> v
      | None \<Rightarrow> (case map_of d ''data'' of Some v \<Rightarrow> v | None \<Rightarrow> JArr []))"
    by (simp add: extract_models_def dict_get_def split: option.splits)
  have same: "extract_models (JObj [(''data'', JArr [JObj rec_c])]) = extract_models (JArr [JObj rec_c])"
    by (simp add: extract_models_def dict_get_def)
  have runs:
   "fetch_models (srv_list (JObj [(''data'', JArr [JObj rec_c])])) =
     (JNull,
      [Get ''/models'' None, Get ''/models/'' None, Get ''/models/list'' None, Get ''/v1/models'' None]) \<and>
   update_models ex_cfg ex_str (srv_list (JObj [(''data'', JArr [JObj rec_c])])) ex_workers ex_finish =
     SysExit 1 ''No models found in the API response'' \<and>
   update_models ex_cfg ex_str (srv_list (JArr [JObj rec_c])) ex_workers ex_finish =
     Completed (\<lparr>successful_updates = 0, failed_updates = 1, skipped_updates = 0\<rparr>,
                \<lparr>bar_total = 1, bar_n = 1\<rparr>) \<and>
   update_models_plain ''new-model'' ex_str (srv_list (JObj [(''data'', JArr [JObj rec_c])]))
       ex_workers =
     Completed \<lparr>plain_successful_updates = 0, plain_model_count = 1\<rparr> \<and>
   update_models_plain ''new-model'' ex_str (srv_list (JArr [JObj rec_c])) ex_workers =
     Completed \<lparr>plain_successful_updates = 0, plain_model_count = 1\<rparr>"
    by code_simp
  from rule same runs show ?thesis by blast
qed

text \<open>
  C9. A run of a batch script that reaches its summary fetched a list of records, and
  its three counters add up to the length of that list, which is also the total of
  the progress bar. Each round of the loop over the results that does not raise adds
  one to exactly one of the three counters; records without an id are counted like
  the others.
\<close>

theorem C9_counters_sum_to_fetched:
  "(update_models cfg py_str srv workers finish = Completed (c, bar) \<or>
    update_models_serverside workers_flag py_str srv workers finish = Completed (c, bar) \<longrightarrow>
      (\<exists>ms. extract_models (fst (fetch_models srv)) = JArr ms \<and>
            successful_updates c + skipped_updates c + failed_updates c = length ms \<and>
            bar_total bar = length ms)) \<and>
   (tally target c0 job = Inr c1 \<longrightarrow>
      c1 = c0\<lparr>successful_updates := successful_updates c0 + 1\<rparr> \<or>
      c1 = c0\<lparr>failed_updates := failed_updates c0 + 1\<rparr> \<or>
      c1 = c0\<lparr>skipped_updates := skipped_updates c0 + 1\<rparr>)"
  using update_models_Completed[of cfg py_str srv workers finish c bar]
        update_models_Completed[of _ py_str srv workers finish c bar]
        tally_one_counter[of target c0 job c1]
  unfolding update_models_serverside_def by blast

theorem C9_counters_sum_to_fetched_witness:
  "update_models ex_cfg ex_str (srv_list (JArr [JObj rec_a, JObj rec_noid, JObj rec_c]))
       ex_workers ex_finish =
     Completed (\<lparr>successful_updates = 1, failed_updates = 2, skipped_updates = 0\<rparr>,
                \<lparr>bar_total = 3, bar_n = 3\<rparr>) \<and>
   update_models_serverside 10 ex_str (srv_list (JArr [JObj rec_a, JObj rec_noid, JObj rec_c]))
       ex_workers ex_finish =
     Completed (\<lparr>successful_updates = 0, failed_updates = 3, skipped_updates = 0\<rparr>,
                \<lparr>bar_total = 3, bar_n = 3\<rparr>) \<and>
   extract_models (fst (fetch_models (srv_list (JArr [JObj rec_a, JObj rec_noid, JObj rec_c])))) =
     JArr [JObj rec_a, JObj rec_noid, JObj rec_c] \<and>
   (1::nat) + 0 + 2 = length [JObj rec_a, JObj rec_noid, JObj rec_c] \<and>
   (0::nat) + 0 + 3 = length [JObj rec_a, JObj rec_noid, JObj rec_c] \<and>
   tally ''new-model'' \<lparr>successful_updates = 1, failed_updates = 0, skipped_updates = 0\<rparr>
     (JObj rec_noid, Inr (JBool False)) =
     Inr \<lparr>successful_updates = 1, failed_updates = 1, skipped_updates = 0\<rparr> \<and>
   \<lparr>successful_updates = 1, failed_updates = 1, skipped_updates = 0\<rparr> =
     \<lparr>successful_updates = 1, failed_updates = 0, skipped_updates = 0\<rparr>
       \<lparr>failed_updates := 1\<rparr>"
proof -
  let ?srv = "srv_list (JArr [JObj rec_a, JObj rec_noid, JObj rec_c])"
  have h: "update_models ex_cfg ex_str ?srv ex_workers ex_finish =
     Completed (\<lparr>successful_updates = 1, failed_updates = 2, skipped_updates = 0\<rparr>,
                \<lparr>bar_total = 3, bar_n = 3\<rparr>)"
    by code_simp
  have h': "update_models_serverside 10 ex_str ?srv ex_workers ex_finish =
     Completed (\<lparr>successful_updates = 0, failed_updates = 3, skipped_updates = 0\<rparr>,
                \<lparr>bar_total = 3, bar_n = 3\<rparr>)"
    by code_simp
  have e: "extract_models (fst (fetch_models ?srv)) = JArr [JObj rec_a, JObj rec_noid, JObj rec_c]"
    by (simp add: fetch_models_def extract_models_def srv_list_def)
  have t: "tally ''new-model'' \<lparr>successful_updates = 1, failed_updates = 0, skipped_updates = 0\<rparr>
     (JObj rec_noid, Inr (JBool False)) =
     Inr \<lparr>successful_updates = 1, failed_updates = 1, skipped_updates = 0\<rparr>"
    by (simp add: rec_noid_def dict_get_def)
  from C9_counters_sum_to_fetched[where cfg = ex_cfg and py_str = ex_str and srv = ?srv
      and workers = ex_workers and finish = ex_finish
      and c = "\<lparr>successful_updates = 1, failed_updates = 2, skipped_updates = 0\<rparr>"
      and bar = "\<lparr>bar_total = 3, bar_n = 3\<rparr>" and target = "''new-model''"
      and ?c0.0 = "\<lparr>successful_updates = 1, failed_updates = 0, skipped_updates = 0\<rparr>"
      and job = "(JObj rec_noid, Inr (JBool False))"
      and ?c1.0 = "\<lparr>successful_updates = 1, failed_updates = 1, skipped_updates = 0\<rparr>"] h e t
  have 1: "(1::nat) + 0 + 2 = length [JObj rec_a, JObj rec_noid, JObj rec_c]"
    and 2: "\<lparr>successful_updates = 1, failed_updates = 1, skipped_updates = 0\<rparr> =
     \<lparr>successful_updates = 1, failed_updates = 0, skipped_updates = 0\<rparr>
       \<lparr>failed_updates := 1\<rparr>"
    by simp_all
  from C9_counters_sum_to_fetched[where py_str = ex_str and srv = ?srv
      and workers = ex_workers and finish = ex_finish and workers_flag = 10
      and c = "\<lparr>successful_updates = 0, failed_updates = 3, skipped_updates = 0\<rparr>"
      and bar = "\<lparr>bar_total = 3, bar_n = 3\<rparr>"] h' e
  have 3: "(0::nat) + 0 + 3 = length [JObj rec_a, JObj rec_noid, JObj rec_c]"
    by simp
  from h h' e t 1 2 3 show ?thesis by blast
qed

text \<open>
  C10. In the batch scripts the loop over the results counts a record as skipped
  exactly when its id is missing or the marker \<^verbatim>\<open>unknown\<close> and its base model is the
  target; a record with a valid id whose base model is the target is counted as
  updated.
\<close>

theorem C10_skipped_iff_invalid_id_at_target:
  "(tally target c (JObj d, returned (update_single_model py_str srv target (JObj d))) =
      Inr (c\<lparr>skipped_updates := skipped_updates c + 1\<rparr>)
    \<longleftrightarrow> id_missing_or_unknown d \<and> base_model_is d target) \<and>
   (\<not> id_missing_or_unknown d \<and> base_model_is d target \<longrightarrow>
      tally target c (JObj d, returned (update_single_model py_str srv target (JObj d))) =
        Inr (c\<lparr>successful_updates := successful_updates c + 1\<rparr>))"
proof (cases "id_missing_or_unknown d")
  case True
  then show ?thesis
    by (simp add: update_single_model_invalid_id base_model_is_def)
next
  case valid: False
  show ?thesis
  proof (cases "base_model_is d target")
    case True
    with valid show ?thesis
      by (simp add: update_single_model_at_target)
  next
    case False
    with valid show ?thesis
      by (simp add: update_single_model_dispatched Let_def base_model_is_def)
  qed
qed

theorem C10_skipped_iff_invalid_id_at_target_witness:
  "id_missing_or_unknown rec_unknown \<and> base_model_is rec_unknown ''new-model'' \<and>
   tally ''new-model'' \<lparr>successful_updates = 0, failed_updates = 0, skipped_updates = 0\<rparr>
     (JObj rec_unknown, returned (update_single_model ex_str srv_confirm_b ''new-model'' (JObj rec_unknown))) =
     Inr \<lparr>successful_updates = 0, failed_updates = 0, skipped_updates = 1\<rparr> \<and>
   \<not> id_missing_or_unknown rec_a \<and> base_model_is rec_a ''new-model'' \<and>
   tally ''new-model'' \<lparr>successful_updates = 0, failed_updates = 0, skipped_updates = 0\<rparr>
     (JObj rec_a, returned (update_single_model ex_str srv_confirm_b ''new-model'' (JObj rec_a))) =
     Inr \<lparr>successful_updates = 1, failed_updates = 0, skipped_updates = 0\<rparr>"
proof -
  let ?z = "\<lparr>successful_updates = 0, failed_updates = 0, skipped_updates = 0\<rparr>"
  have u: "id_missing_or_unknown rec_unknown" "base_model_is rec_unknown ''new-model''"
    by (simp_all add: id_missing_or_unknown_def base_model_is_def dict_get_def rec_unknown_def)
  have a: "\<not> id_missing_or_unknown rec_a" "base_model_is rec_a ''new-model''"
    by (simp_all add: id_missing_or_unknown_def base_model_is_def dict_get_def rec_a_def)
  from C10_skipped_iff_invalid_id_at_target[of "''new-model''" ?z rec_unknown ex_str srv_confirm_b] u
  have 1: "tally ''new-model'' ?z
     (JObj rec_unknown, returned (update_single_model ex_str srv_confirm_b ''new-model'' (JObj rec_unknown))) =
     Inr \<lparr>successful_updates = 0, failed_updates = 0, skipped_updates = 1\<rparr>"
    by simp
  from C10_skipped_iff_invalid_id_at_target[of "''new-model''" ?z rec_a ex_str srv_confirm_b] a
  have 2: "tally ''new-model'' ?z
     (JObj rec_a, returned (update_single_model ex_str srv_confirm_b ''new-model'' (JObj rec_a))) =
     Inr \<lparr>successful_updates = 1, failed_updates = 0, skipped_updates = 0\<rparr>"
    by simp
  from u a 1 2 show ?thesis by blast
qed

end
